theory Spec2Isabelle
  imports Main "HOL-Library.Multiset"
begin

section \<open>Canonical model (src/types/task.ts)\<close>

text \<open>
  The string literal types \<^verbatim>\<open>'todo' | 'in_progress' | 'done'\<close> and
  \<^verbatim>\<open>'low' | 'medium' | 'high' | 'urgent'\<close>, capitalised as constructors.
\<close>

datatype TaskStatus = Todo | InProgress | Done

datatype TaskPriority = Low | Medium | High | Urgent

text \<open>
  \<^verbatim>\<open>UnifiedTask\<close>. An optional field (\<^verbatim>\<open>description?: string\<close>) is an \<open>option\<close>,
  \<open>None\<close> standing for \<^verbatim>\<open>undefined\<close>. The field \<^verbatim>\<open>id\<close> is named \<open>task_id\<close>
  (\<open>id\<close> is the identity function of HOL). \<^verbatim>\<open>source\<close> is a string: the type
  says \<^verbatim>\<open>'notion' | 'todoist'\<close>, but the service's \<^verbatim>\<open>switch\<close> has a
  \<^verbatim>\<open>default\<close> branch for any other value, which the server can pass in from a
  request body.
\<close>

record UnifiedTask =
  task_id :: string
  source :: string
  sourceId :: string
  title :: string
  description :: "string option"
  status :: TaskStatus
  priority :: TaskPriority
  dueDate :: "string option"
  createdAt :: string
  updatedAt :: string
  labels :: "string list option"
  projectName :: "string option"

text \<open>\<^verbatim>\<open>CreateTaskInput\<close> and \<^verbatim>\<open>UpdateTaskInput\<close>; fields prefixed \<open>c_\<close> and \<open>u_\<close>.\<close>

record CreateTaskInput =
  c_title :: string
  c_source :: string
  c_description :: "string option"
  c_status :: "TaskStatus option"
  c_priority :: "TaskPriority option"
  c_dueDate :: "string option"
  c_labels :: "string list option"
  c_projectName :: "string option"

record UpdateTaskInput =
  u_title :: "string option"
  u_description :: "string option"
  u_status :: "TaskStatus option"
  u_priority :: "TaskPriority option"
  u_dueDate :: "string option"
  u_labels :: "string list option"

section \<open>Strings\<close>

text \<open>
  \<^verbatim>\<open>String.prototype.toLowerCase\<close> and \<^verbatim>\<open>trim\<close> on the ASCII range: a string is
  a list of bytes, the letters A to Z are lowered, and white space is tab, line feed,
  vertical tab, form feed, carriage return and space. Characters outside ASCII are
  left as they are.
\<close>

definition toLowerCase_char :: "char \<Rightarrow> char" where
  "toLowerCase_char c =
     (case map_of (zip ''ABCDEFGHIJKLMNOPQRSTUVWXYZ'' ''abcdefghijklmnopqrstuvwxyz'') c of
        Some l \<Rightarrow> l
      | None \<Rightarrow> c)"

definition toLowerCase :: "string \<Rightarrow> string" where
  "toLowerCase s = map toLowerCase_char s"

definition isWhiteSpace :: "char \<Rightarrow> bool" where
  "isWhiteSpace c \<longleftrightarrow>
     c \<in> set [CHR 0x09, CHR 0x0A, CHR 0x0B, CHR 0x0C, CHR 0x0D, CHR '' '']"

definition trim :: "string \<Rightarrow> string" where
  "trim s = rev (dropWhile isWhiteSpace (rev (dropWhile isWhiteSpace s)))"

text \<open>\<^verbatim>\<open>a || b\<close> on a string that may be undefined: the empty string is falsy.\<close>

definition truthy :: "string option \<Rightarrow> bool" where
  "truthy s = (case s of None \<Rightarrow> False | Some v \<Rightarrow> v \<noteq> [])"

section \<open>Normalizers (src/api/unified.ts)\<close>

subsection \<open>Raw Notion pages\<close>

text \<open>
  The raw page is typed by the casts of \<^verbatim>\<open>notionPageToTask\<close>. A rich-text value
  is \<^verbatim>\<open>unknown\<close> and tested with \<^verbatim>\<open>Array.isArray\<close>: \<open>None\<close> is "absent or not an
  array", \<open>Some frags\<close> an array of fragments, each with an optional
  \<^verbatim>\<open>plain_text\<close>. \<^verbatim>\<open>status\<close>, \<^verbatim>\<open>select\<close> and \<^verbatim>\<open>date\<close> are optional objects
  with an optional string inside (\<open>None\<close>: no object; \<open>Some None\<close>: the object
  lacks the name). \<^verbatim>\<open>multi_select\<close> is tested with \<^verbatim>\<open>Array.isArray\<close> too, and
  an array of options is kept as the list of their names. \<^verbatim>\<open>properties\<close> is an
  object read by key, kept as an association list; a property that is present is an
  object.
\<close>

record notion_prop =
  p_title :: "string option list option"
  p_rich_text :: "string option list option"
  p_status :: "string option option"
  p_select :: "string option option"
  p_date :: "string option option"
  p_multi_select :: "string list option"

record notion_page =
  page_id :: string
  properties :: "(string \<times> notion_prop) list option"
  created_time :: "string option"
  last_edited_time :: "string option"

text \<open>The object literal \<^verbatim>\<open>{}\<close>: every field undefined.\<close>

definition empty_prop :: notion_prop where
  "empty_prop = \<lparr>p_title = None, p_rich_text = None, p_status = None, p_select = None,
                  p_date = None, p_multi_select = None\<rparr>"

text \<open>\<^verbatim>\<open>props[k1] ?? props[k2] ?? ... ?? {}\<close>\<close>

fun prop_of :: "(string \<times> notion_prop) list \<Rightarrow> string list \<Rightarrow> notion_prop" where
  "prop_of props [] = empty_prop"
| "prop_of props (k # ks) = (case map_of props k of Some p \<Rightarrow> p | None \<Rightarrow> prop_of props ks)"

definition richTextToPlain :: "string option list option \<Rightarrow> string" where
  "richTextToPlain prop =
     (case prop of
        None \<Rightarrow> []
      | Some frags \<Rightarrow> concat (map (\<lambda>rt. case rt of Some t \<Rightarrow> t | None \<Rightarrow> []) frags))"

definition mapNotionStatus :: "string option \<Rightarrow> TaskStatus" where
  "mapNotionStatus raw =
     (if \<not> truthy raw then Todo
      else let lower = trim (toLowerCase (the raw)) in
        if lower \<in> set [''done'', ''complete'', ''completed''] then Done
        else if lower \<in> set [''in progress'', ''in_progress'', ''doing'', ''started'']
        then InProgress
        else Todo)"

definition mapNotionPriority :: "string option \<Rightarrow> TaskPriority" where
  "mapNotionPriority raw =
     (if \<not> truthy raw then Medium
      else let lower = trim (toLowerCase (the raw)) in
        if lower \<in> set [''urgent'', ''critical''] then Urgent
        else if lower \<in> set [''high''] then High
        else if lower \<in> set [''low''] then Low
        else Medium)"

text \<open>
  \<^verbatim>\<open>obj?.name\<close>: undefined when the object is, else its name.
\<close>

definition opt_name :: "string option option \<Rightarrow> string option" where
  "opt_name obj = (case obj of None \<Rightarrow> None | Some n \<Rightarrow> n)"

text \<open>
  \<^verbatim>\<open>notionPageToTask\<close>. The first argument is the value of
  \<^verbatim>\<open>new Date().toISOString()\<close> at the time of the call: the function reads the
  clock when the page has no \<^verbatim>\<open>created_time\<close>.
\<close>

definition notionPageToTask :: "string \<Rightarrow> notion_page \<Rightarrow> UnifiedTask" where
  "notionPageToTask now page =
     (let props = (case properties page of Some ps \<Rightarrow> ps | None \<Rightarrow> []);
          titleProp = prop_of props [''Name'', ''Title'', ''title''];
          titleRichText = p_title titleProp;
          title' = (let t = richTextToPlain titleRichText in if t \<noteq> [] then t else ''Untitled'');
          descProp = prop_of props [''Description'', ''description''];
          descRichText = p_rich_text descProp;
          description' = (let d = richTextToPlain descRichText in if d \<noteq> [] then Some d else None);
          statusProp = prop_of props [''Status'', ''status''];
          statusObj = p_status statusProp;
          status' = mapNotionStatus (opt_name statusObj);
          priorityProp = prop_of props [''Priority'', ''priority''];
          priorityObj = p_select priorityProp;
          priority' = mapNotionPriority (opt_name priorityObj);
          dueProp = prop_of props [''Due'', ''Due Date'', ''due_date''];
          dateObj = p_date dueProp;
          dueDate' = opt_name dateObj;
          tagsProp = prop_of props [''Tags'', ''Labels'', ''tags''];
          multiSelect = p_multi_select tagsProp;
          labels' = (case multiSelect of Some ms \<Rightarrow> Some (map (\<lambda>s. s) ms) | None \<Rightarrow> None);
          projectProp = prop_of props [''Project'', ''project''];
          projectSelect = p_select projectProp;
          projectName' = opt_name projectSelect;
          createdAt' = (case created_time page of Some c \<Rightarrow> c | None \<Rightarrow> now);
          updatedAt' = (case last_edited_time page of Some u \<Rightarrow> u | None \<Rightarrow> createdAt')
      in \<lparr>task_id = ''notion-'' @ page_id page,
          source = ''notion'',
          sourceId = page_id page,
          title = title',
          description = description',
          status = status',
          priority = priority',
          dueDate = dueDate',
          createdAt = createdAt',
          updatedAt = updatedAt',
          labels = labels',
          projectName = projectName'\<rparr>)"

subsection \<open>Raw Todoist items\<close>

text \<open>
  The raw item, typed by the casts of \<^verbatim>\<open>todoistItemToTask\<close>; \<open>None\<close> is
  \<^verbatim>\<open>undefined\<close> or \<^verbatim>\<open>null\<close>, which \<^verbatim>\<open>??\<close> and \<^verbatim>\<open>?.\<close> treat alike. For
  \<^verbatim>\<open>labels\<close>, \<open>None\<close> is "absent or not an array". Numbers are integers.
\<close>

record todoist_item =
  i_id :: "string option"
  i_content :: "string option"
  i_description :: "string option"
  i_priority :: "int option"
  i_isCompleted :: "bool option"
  i_due :: "string option option"
  i_labels :: "string list option"
  i_projectName :: "string option"
  i_createdAt :: "string option"

definition mapTodoistPriority :: "int option \<Rightarrow> TaskPriority" where
  "mapTodoistPriority p =
     (if p = Some 4 then Urgent
      else if p = Some 3 then High
      else if p = Some 2 then Medium
      else Low)"

definition todoistItemToTask :: "string \<Rightarrow> todoist_item \<Rightarrow> UnifiedTask" where
  "todoistItemToTask now item =
     (let id' = (case i_id item of Some i \<Rightarrow> i | None \<Rightarrow> []);
          title' = (case i_content item of Some c \<Rightarrow> c | None \<Rightarrow> ''Untitled'');
          description' = (if truthy (i_description item) then i_description item else None);
          priority' = mapTodoistPriority (i_priority item);
          isCompleted = (case i_isCompleted item of Some b \<Rightarrow> b | None \<Rightarrow> False);
          status' = (if isCompleted then Done else Todo);
          due = i_due item;
          dueDate' = opt_name due;
          rawLabels = i_labels item;
          labels' = (case rawLabels of
                       Some ls \<Rightarrow> if length ls > 0 then Some ls else None
                     | None \<Rightarrow> None);
          projectName' = i_projectName item;
          createdAt' = (case i_createdAt item of Some c \<Rightarrow> c | None \<Rightarrow> now);
          updatedAt' = createdAt'
      in \<lparr>task_id = ''todoist-'' @ id',
          source = ''todoist'',
          sourceId = id',
          title = title',
          description = description',
          status = status',
          priority = priority',
          dueDate = dueDate',
          createdAt = createdAt',
          updatedAt = updatedAt',
          labels = labels',
          projectName = projectName'\<rparr>)"

section \<open>Reverse mappings (src/api/notion.ts, src/api/todoist.ts)\<close>

fun unifiedStatusToNotion :: "TaskStatus \<Rightarrow> string" where
  "unifiedStatusToNotion Done = ''Done''"
| "unifiedStatusToNotion InProgress = ''In Progress''"
| "unifiedStatusToNotion Todo = ''To Do''"

fun unifiedPriorityToNotion :: "TaskPriority \<Rightarrow> string" where
  "unifiedPriorityToNotion Urgent = ''Urgent''"
| "unifiedPriorityToNotion High = ''High''"
| "unifiedPriorityToNotion Low = ''Low''"
| "unifiedPriorityToNotion Medium = ''Medium''"

fun unifiedPriorityToTodoist :: "TaskPriority \<Rightarrow> int" where
  "unifiedPriorityToTodoist Urgent = 4"
| "unifiedPriorityToTodoist High = 3"
| "unifiedPriorityToTodoist Medium = 2"
| "unifiedPriorityToTodoist Low = 1"

section \<open>Errors\<close>

text \<open>
  A thrown value: an object with a message and, for the errors of the provider SDKs,
  a numeric \<^verbatim>\<open>status\<close> or \<^verbatim>\<open>httpStatusCode\<close> (\<open>None\<close>: the property is absent
  or not a number). \<^verbatim>\<open>new Error(msg)\<close> has neither.
\<close>

record js_error =
  message :: string
  err_status :: "int option"
  err_httpStatusCode :: "int option"

definition new_Error :: "string \<Rightarrow> js_error" where
  "new_Error msg = \<lparr>message = msg, err_status = None, err_httpStatusCode = None\<rparr>"

section \<open>Retry helper (src/api/notion.ts, src/api/todoist.ts)\<close>

text \<open>
  Both connectors declare \<^verbatim>\<open>MAX_RETRIES = 5\<close>; \<^verbatim>\<open>BASE_DELAY_MS\<close> is 400 for Notion
  and 500 for Todoist.
\<close>

definition MAX_RETRIES :: nat where
  "MAX_RETRIES = 5"

definition NOTION_BASE_DELAY_MS :: nat where
  "NOTION_BASE_DELAY_MS = 400"

definition TODOIST_BASE_DELAY_MS :: nat where
  "TODOIST_BASE_DELAY_MS = 500"

text \<open>The status each \<^verbatim>\<open>withRetry\<close> reads from the caught error.\<close>

definition notion_status :: "js_error \<Rightarrow> int option" where
  "notion_status err = err_status err"

definition todoist_status :: "js_error \<Rightarrow> int option" where
  "todoist_status err =
     (case err_httpStatusCode err of Some c \<Rightarrow> Some c | None \<Rightarrow> err_status err)"

definition isRetryable :: "int option \<Rightarrow> bool" where
  "isRetryable st =
     (let isRateLimit = (st = Some 429);
          isServerError = (case st of Some n \<Rightarrow> n \<ge> 500 | None \<Rightarrow> False)
      in isRateLimit \<or> isServerError)"

text \<open>
  The loop of \<^verbatim>\<open>withRetry\<close>, the same text in both files but for the base delay and
  the status read. \<open>fn\<close> is the wrapped call: it acts on a state \<open>'s\<close> of the outside
  world and returns the settled promise (\<open>Inl\<close> a rejection). The result carries the
  final state and the delays slept, in order. After the loop the source throws
  \<^verbatim>\<open>lastError\<close>, which is \<^verbatim>\<open>undefined\<close> if no attempt ran; \<open>thrown_undefined\<close>
  stands for that value.
\<close>

definition thrown_undefined :: js_error where
  "thrown_undefined = new_Error []"

function withRetry_loop ::
  "nat \<Rightarrow> (js_error \<Rightarrow> int option) \<Rightarrow> ('s \<Rightarrow> (js_error + 'a) \<times> 's) \<Rightarrow> nat \<Rightarrow> js_error option \<Rightarrow> 's
     \<Rightarrow> (js_error + 'a) \<times> 's \<times> nat list" where
  "withRetry_loop base statusOf fn attempt lastError s =
     (if attempt \<le> MAX_RETRIES then
        (case fn s of
           (Inr v, s') \<Rightarrow> (Inr v, s', [])
         | (Inl err, s') \<Rightarrow>
             if isRetryable (statusOf err) \<and> attempt < MAX_RETRIES then
               (let delay = base * 2 ^ attempt;
                    (r, s'', delays) = withRetry_loop base statusOf fn (Suc attempt) (Some err) s'
                in (r, s'', delay # delays))
             else (Inl err, s', []))
      else (Inl (case lastError of Some e \<Rightarrow> e | None \<Rightarrow> thrown_undefined), s, []))"
  by pat_completeness auto
termination
  by (relation "measure (\<lambda>(base, statusOf, fn, attempt, lastError, s). Suc MAX_RETRIES - attempt)")
     auto

definition notion_withRetry ::
  "('s \<Rightarrow> (js_error + 'a) \<times> 's) \<Rightarrow> 's \<Rightarrow> (js_error + 'a) \<times> 's \<times> nat list" where
  "notion_withRetry fn s = withRetry_loop NOTION_BASE_DELAY_MS notion_status fn 0 None s"

definition todoist_withRetry ::
  "('s \<Rightarrow> (js_error + 'a) \<times> 's) \<Rightarrow> 's \<Rightarrow> (js_error + 'a) \<times> 's \<times> nat list" where
  "todoist_withRetry fn s = withRetry_loop TODOIST_BASE_DELAY_MS todoist_status fn 0 None s"

text \<open>
  A call whose \<open>n\<close>-th invocation settles to \<open>outcomes n\<close>; the state counts the
  invocations made.
\<close>

definition scripted :: "(nat \<Rightarrow> js_error + 'a) \<Rightarrow> nat \<Rightarrow> (js_error + 'a) \<times> nat" where
  "scripted outcomes n = (outcomes n, Suc n)"

definition retryable_failure :: "(js_error \<Rightarrow> int option) \<Rightarrow> js_error + 'a \<Rightarrow> bool" where
  "retryable_failure statusOf r = (case r of Inl e \<Rightarrow> isRetryable (statusOf e) | Inr v \<Rightarrow> False)"

definition backoff :: "nat \<Rightarrow> nat \<Rightarrow> nat list" where
  "backoff base k = map (\<lambda>i. base * 2 ^ i) [0..<k]"

section \<open>Todoist connector (src/api/todoist.ts)\<close>

text \<open>The request payloads \<^verbatim>\<open>addParams\<close> and \<^verbatim>\<open>updateParams\<close>; \<open>None\<close>: key not set.\<close>

record add_params =
  a_content :: string
  a_description :: "string option"
  a_priority :: "int option"
  a_dueString :: "string option"
  a_labels :: "string list option"

record update_params =
  up_content :: "string option"
  up_description :: "string option"
  up_priority :: "int option"
  up_dueString :: "string option"
  up_labels :: "string list option"

datatype todoist_call =
    AddTask add_params
  | UpdateTask string update_params
  | CloseTask string
  | ReopenTask string

text \<open>
  The SDK client: what each request settles to, given the requests made so far (so
  that a retried request can settle differently). A client method appends its request
  to the log.
\<close>

record todoist_api =
  api_addTask :: "todoist_call list \<Rightarrow> add_params \<Rightarrow> js_error + todoist_item"
  api_updateTask :: "todoist_call list \<Rightarrow> string \<Rightarrow> update_params \<Rightarrow> js_error + todoist_item"
  api_closeTask :: "todoist_call list \<Rightarrow> string \<Rightarrow> js_error + bool"
  api_reopenTask :: "todoist_call list \<Rightarrow> string \<Rightarrow> js_error + bool"

definition client_addTask ::
  "todoist_api \<Rightarrow> add_params \<Rightarrow> todoist_call list \<Rightarrow> (js_error + todoist_item) \<times> todoist_call list" where
  "client_addTask client params log = (api_addTask client log params, log @ [AddTask params])"

definition client_updateTask ::
  "todoist_api \<Rightarrow> string \<Rightarrow> update_params \<Rightarrow> todoist_call list
     \<Rightarrow> (js_error + todoist_item) \<times> todoist_call list" where
  "client_updateTask client sid params log =
     (api_updateTask client log sid params, log @ [UpdateTask sid params])"

definition client_closeTask ::
  "todoist_api \<Rightarrow> string \<Rightarrow> todoist_call list \<Rightarrow> (js_error + bool) \<times> todoist_call list" where
  "client_closeTask client sid log = (api_closeTask client log sid, log @ [CloseTask sid])"

definition client_reopenTask ::
  "todoist_api \<Rightarrow> string \<Rightarrow> todoist_call list \<Rightarrow> (js_error + bool) \<times> todoist_call list" where
  "client_reopenTask client sid log = (api_reopenTask client log sid, log @ [ReopenTask sid])"

text \<open>
  \<^verbatim>\<open>getTodoistClient\<close>: fails when the token is unset or empty. The environment is
  fixed during a run, so the memoised client is the client built from it.
\<close>

record todoist_env =
  TODOIST_API_TOKEN :: "string option"
  todoist_sdk :: todoist_api

definition getTodoistClient :: "todoist_env \<Rightarrow> js_error + todoist_api" where
  "getTodoistClient env =
     (if \<not> truthy (TODOIST_API_TOKEN env)
      then Inl (new_Error ''TODOIST_API_TOKEN environment variable is not set'')
      else Inr (todoist_sdk env))"

text \<open>The payload \<^verbatim>\<open>createTodoistTask\<close> builds from its input.\<close>

definition todoist_addParams :: "CreateTaskInput \<Rightarrow> add_params" where
  "todoist_addParams input =
     \<lparr>a_content = c_title input,
      a_description = (if truthy (c_description input) then c_description input else None),
      a_priority = (case c_priority input of
                      Some p \<Rightarrow> Some (unifiedPriorityToTodoist p) | None \<Rightarrow> None),
      a_dueString = (if truthy (c_dueDate input) then c_dueDate input else None),
      a_labels = (case c_labels input of
                    Some ls \<Rightarrow> if length ls > 0 then Some ls else None
                  | None \<Rightarrow> None)\<rparr>"

text \<open>
  \<^verbatim>\<open>createTodoistTask\<close>; \<open>now\<close> is the clock as the normalizer would read it. The
  result is the settled promise and the log of requests.
\<close>

definition createTodoistTask ::
  "todoist_env \<Rightarrow> string \<Rightarrow> CreateTaskInput \<Rightarrow> todoist_call list
     \<Rightarrow> (js_error + UnifiedTask) \<times> todoist_call list" where
  "createTodoistTask env now input log =
     (case getTodoistClient env of
        Inl e \<Rightarrow> (Inl e, log)
      | Inr client \<Rightarrow>
          (let addParams = todoist_addParams input;
               (r, log', delays) = todoist_withRetry (client_addTask client addParams) log
           in case r of
                Inl e \<Rightarrow> (Inl e, log')
              | Inr task \<Rightarrow> (Inr (todoistItemToTask now task), log')))"

definition todoist_updateParams :: "UpdateTaskInput \<Rightarrow> update_params" where
  "todoist_updateParams updates =
     \<lparr>up_content = u_title updates,
      up_description = u_description updates,
      up_priority = (case u_priority updates of
                       Some p \<Rightarrow> Some (unifiedPriorityToTodoist p) | None \<Rightarrow> None),
      up_dueString = (if truthy (u_dueDate updates) then u_dueDate updates else None),
      up_labels = u_labels updates\<rparr>"

definition updateTodoistTask ::
  "todoist_env \<Rightarrow> string \<Rightarrow> string \<Rightarrow> UpdateTaskInput \<Rightarrow> todoist_call list
     \<Rightarrow> (js_error + UnifiedTask) \<times> todoist_call list" where
  "updateTodoistTask env now sid updates log =
     (case getTodoistClient env of
        Inl e \<Rightarrow> (Inl e, log)
      | Inr client \<Rightarrow>
          (let updateParams = todoist_updateParams updates;
               (r, log1, delays) =
                 todoist_withRetry (client_updateTask client sid updateParams) log
           in case r of
                Inl e \<Rightarrow> (Inl e, log1)
              | Inr task \<Rightarrow>
                  (let (closed, log2) =
                         (if u_status updates = Some Done
                          then (let (rc, l, ds) = todoist_withRetry (client_closeTask client sid) log1
                                in (rc, l))
                          else (Inr True, log1))
                   in case closed of
                        Inl e \<Rightarrow> (Inl e, log2)
                      | Inr c \<Rightarrow>
                          (let (reopened, log3) =
                                 (if u_status updates = Some Todo \<or> u_status updates = Some InProgress
                                  then (let (rr, l, ds) =
                                              todoist_withRetry (client_reopenTask client sid) log2
                                        in (rr, l))
                                  else (Inr True, log2))
                           in case reopened of
                                Inl e \<Rightarrow> (Inl e, log3)
                              | Inr b \<Rightarrow> (Inr (todoistItemToTask now task), log3)))))"

section \<open>Notion connector (src/api/notion.ts)\<close>

text \<open>
  The \<^verbatim>\<open>properties\<close> payload of \<^verbatim>\<open>updateNotionTask\<close>; \<open>None\<close>: key not set. For
  \<^verbatim>\<open>Due\<close>, \<open>Some None\<close> is \<^verbatim>\<open>{ date: null }\<close>.
\<close>

record notion_update_props =
  np_Name :: "string option"
  np_Status :: "string option"
  np_Priority :: "string option"
  np_Description :: "string option"
  np_Due :: "string option option"
  np_Tags :: "string list option"

datatype notion_call = PagesUpdate string notion_update_props

record notion_env =
  NOTION_API_KEY :: "string option"
  api_pages_update :: "notion_call list \<Rightarrow> string \<Rightarrow> notion_update_props \<Rightarrow> js_error + notion_page"

definition client_pages_update ::
  "notion_env \<Rightarrow> string \<Rightarrow> notion_update_props \<Rightarrow> notion_call list
     \<Rightarrow> (js_error + notion_page) \<times> notion_call list" where
  "client_pages_update env pid props log =
     (api_pages_update env log pid props, log @ [PagesUpdate pid props])"

definition getNotionClient :: "notion_env \<Rightarrow> js_error + notion_env" where
  "getNotionClient env =
     (if \<not> truthy (NOTION_API_KEY env)
      then Inl (new_Error ''NOTION_API_KEY environment variable is not set'')
      else Inr env)"

definition notion_updateProps :: "UpdateTaskInput \<Rightarrow> notion_update_props" where
  "notion_updateProps updates =
     \<lparr>np_Name = u_title updates,
      np_Status = (case u_status updates of
                     Some st \<Rightarrow> Some (unifiedStatusToNotion st) | None \<Rightarrow> None),
      np_Priority = (case u_priority updates of
                       Some p \<Rightarrow> Some (unifiedPriorityToNotion p) | None \<Rightarrow> None),
      np_Description = u_description updates,
      np_Due = (case u_dueDate updates of
                  Some d \<Rightarrow> Some (if d \<noteq> [] then Some d else None) | None \<Rightarrow> None),
      np_Tags = (case u_labels updates of Some ls \<Rightarrow> Some (map (\<lambda>name. name) ls) | None \<Rightarrow> None)\<rparr>"

definition updateNotionTask ::
  "notion_env \<Rightarrow> string \<Rightarrow> string \<Rightarrow> UpdateTaskInput \<Rightarrow> notion_call list
     \<Rightarrow> (js_error + UnifiedTask) \<times> notion_call list" where
  "updateNotionTask env now sid updates log =
     (case getNotionClient env of
        Inl e \<Rightarrow> (Inl e, log)
      | Inr notion \<Rightarrow>
          (let props = notion_updateProps updates;
               (r, log', delays) = notion_withRetry (client_pages_update notion sid props) log
           in case r of
                Inl e \<Rightarrow> (Inl e, log')
              | Inr page \<Rightarrow> (Inr (notionPageToTask now page), log')))"

section \<open>Aggregation service (src/api/taskService.ts)\<close>

definition CACHE_TTL_MS :: int where
  "CACHE_TTL_MS = 30000"

record TaskCache =
  tasks :: "UnifiedTask list"
  timestamp :: int

text \<open>
  The module variable \<^verbatim>\<open>cache\<close> is threaded through every function; \<open>None\<close> is
  \<^verbatim>\<open>null\<close>. \<open>now\<close> is the value of \<^verbatim>\<open>Date.now()\<close>.
\<close>

definition isCacheValid :: "TaskCache option \<Rightarrow> int \<Rightarrow> bool" where
  "isCacheValid cache now =
     (case cache of None \<Rightarrow> False | Some c \<Rightarrow> now - timestamp c < CACHE_TTL_MS)"

definition refreshTasks :: "TaskCache option \<Rightarrow> TaskCache option" where
  "refreshTasks cache = None"

text \<open>
  The connector functions the service imports. The service calls each at most once per
  operation, so a connector is given by what its promise settles to when called.
\<close>

record connectors =
  fetchNotionTasks_result :: "js_error + UnifiedTask list"
  fetchTodoistTasks_result :: "js_error + UnifiedTask list"
  createNotionTask_result :: "CreateTaskInput \<Rightarrow> js_error + UnifiedTask"
  createTodoistTask_result :: "CreateTaskInput \<Rightarrow> js_error + UnifiedTask"
  updateNotionTask_result :: "string \<Rightarrow> UpdateTaskInput \<Rightarrow> js_error + UnifiedTask"
  updateTodoistTask_result :: "string \<Rightarrow> UpdateTaskInput \<Rightarrow> js_error + UnifiedTask"
  deleteNotionTask_result :: "string \<Rightarrow> js_error + unit"
  deleteTodoistTask_result :: "string \<Rightarrow> js_error + unit"

datatype connector_call =
    FetchNotionTasks
  | FetchTodoistTasks
  | CreateNotionTask CreateTaskInput
  | CreateTodoistTask CreateTaskInput
  | UpdateNotionTask string UpdateTaskInput
  | UpdateTodoistTask string UpdateTaskInput
  | DeleteNotionTask string
  | DeleteTodoistTask string

text \<open>
  What a service operation does: the settled promise (\<open>Inl\<close>: it threw), the cache it
  leaves, the connector functions it called, in order, and the rejections it wrote to
  \<^verbatim>\<open>console.error\<close>.
\<close>

record 'a service_out =
  returned :: "js_error + 'a"
  cache_after :: "TaskCache option"
  calls :: "connector_call list"
  logged :: "js_error list"

text \<open>
  \<^verbatim>\<open>Array.prototype.sort\<close> with a comparator. The sort is stable and a comparator
  result of NaN (\<open>None\<close>) counts as 0. For a consistent comparator the result is the
  stable sorted order, which insertion from the right computes. A comparator that
  returns NaN for some pairs only is not consistent, and the order the engine then
  produces is implementation-defined: the model's order is one of them.
\<close>

fun insert_sorted :: "('a \<Rightarrow> 'a \<Rightarrow> int option) \<Rightarrow> 'a \<Rightarrow> 'a list \<Rightarrow> 'a list" where
  "insert_sorted cmp x [] = [x]"
| "insert_sorted cmp x (y # ys) =
     (if (case cmp x y of Some v \<Rightarrow> v > 0 | None \<Rightarrow> False)
      then y # insert_sorted cmp x ys
      else x # y # ys)"

definition js_sort :: "('a \<Rightarrow> 'a \<Rightarrow> int option) \<Rightarrow> 'a list \<Rightarrow> 'a list" where
  "js_sort cmp xs = foldr (insert_sorted cmp) xs []"

text \<open>
  The comparator of \<^verbatim>\<open>getAllTasks\<close>. \<open>getTime s\<close> is \<^verbatim>\<open>new Date(s).getTime()\<close>:
  the milliseconds of the date the string denotes, \<open>None\<close> (NaN) when it denotes none.
\<close>

definition byUpdatedAtDesc :: "(string \<Rightarrow> int option) \<Rightarrow> UnifiedTask \<Rightarrow> UnifiedTask \<Rightarrow> int option" where
  "byUpdatedAtDesc getTime a b =
     (let dateA = getTime (updatedAt a);
          dateB = getTime (updatedAt b)
      in case (dateA, dateB) of
           (Some ta, Some tb) \<Rightarrow> Some (tb - ta)
         | _ \<Rightarrow> None)"

text \<open>
  \<^verbatim>\<open>getAllTasks\<close>. \<open>now\<close> is the clock at the validity test and \<open>now'\<close> the clock
  when the snapshot is stored, after both fetches have settled.
\<close>

definition getAllTasks ::
  "(string \<Rightarrow> int option) \<Rightarrow> connectors \<Rightarrow> int \<Rightarrow> int \<Rightarrow> TaskCache option
     \<Rightarrow> (UnifiedTask list) service_out" where
  "getAllTasks getTime conn now now' cache =
     (if isCacheValid cache now
      then \<lparr>returned = Inr (tasks (the cache)), cache_after = cache, calls = [], logged = []\<rparr>
      else
        (let results = [fetchNotionTasks_result conn, fetchTodoistTasks_result conn];
             fulfilled = concat (map (\<lambda>result. case result of Inr v \<Rightarrow> v | Inl reason \<Rightarrow> []) results);
             reasons = concat (map (\<lambda>result. case result of Inr v \<Rightarrow> [] | Inl reason \<Rightarrow> [reason]) results);
             sorted_tasks = js_sort (byUpdatedAtDesc getTime) fulfilled
         in \<lparr>returned = Inr sorted_tasks,
             cache_after = Some \<lparr>tasks = sorted_tasks, timestamp = now'\<rparr>,
             calls = [FetchNotionTasks, FetchTodoistTasks],
             logged = reasons\<rparr>))"

definition unsupported :: "string \<Rightarrow> js_error" where
  "unsupported src = new_Error (''Unsupported task source: '' @ src)"

text \<open>
  A routed write: the connector is awaited; a rejection leaves the function at once,
  and only a fulfilled promise reaches \<^verbatim>\<open>refreshTasks()\<close>.
\<close>

definition routed ::
  "connector_call \<Rightarrow> js_error + 'a \<Rightarrow> TaskCache option \<Rightarrow> 'a service_out" where
  "routed call settled cache =
     (case settled of
        Inl e \<Rightarrow> \<lparr>returned = Inl e, cache_after = cache, calls = [call], logged = []\<rparr>
      | Inr v \<Rightarrow> \<lparr>returned = Inr v, cache_after = refreshTasks cache, calls = [call], logged = []\<rparr>)"

definition createTask ::
  "connectors \<Rightarrow> string \<Rightarrow> CreateTaskInput \<Rightarrow> TaskCache option \<Rightarrow> UnifiedTask service_out" where
  "createTask conn src input cache =
     (if src = ''notion''
      then routed (CreateNotionTask input) (createNotionTask_result conn input) cache
      else if src = ''todoist''
      then routed (CreateTodoistTask input) (createTodoistTask_result conn input) cache
      else \<lparr>returned = Inl (unsupported src), cache_after = cache, calls = [], logged = []\<rparr>)"

definition updateTask ::
  "connectors \<Rightarrow> UnifiedTask \<Rightarrow> UpdateTaskInput \<Rightarrow> TaskCache option \<Rightarrow> UnifiedTask service_out" where
  "updateTask conn task updates cache =
     (if source task = ''notion''
      then routed (UpdateNotionTask (sourceId task) updates)
             (updateNotionTask_result conn (sourceId task) updates) cache
      else if source task = ''todoist''
      then routed (UpdateTodoistTask (sourceId task) updates)
             (updateTodoistTask_result conn (sourceId task) updates) cache
      else \<lparr>returned = Inl (unsupported (source task)), cache_after = cache, calls = [],
             logged = []\<rparr>)"

definition deleteTask ::
  "connectors \<Rightarrow> UnifiedTask \<Rightarrow> TaskCache option \<Rightarrow> unit service_out" where
  "deleteTask conn task cache =
     (if source task = ''notion''
      then routed (DeleteNotionTask (sourceId task)) (deleteNotionTask_result conn (sourceId task)) cache
      else if source task = ''todoist''
      then routed (DeleteTodoistTask (sourceId task)) (deleteTodoistTask_result conn (sourceId task)) cache
      else \<lparr>returned = Inl (unsupported (source task)), cache_after = cache, calls = [],
             logged = []\<rparr>)"

text \<open>
  Ordering of a task list by \<^verbatim>\<open>updatedAt\<close>, newest first, on timestamps that denote
  a date: every task is at least as recent as each task after it.
\<close>

definition valid_timestamps :: "(string \<Rightarrow> int option) \<Rightarrow> UnifiedTask list \<Rightarrow> bool" where
  "valid_timestamps getTime ts = list_all (\<lambda>t. getTime (updatedAt t) \<noteq> None) ts"

definition newer_or_same :: "(string \<Rightarrow> int option) \<Rightarrow> UnifiedTask \<Rightarrow> UnifiedTask \<Rightarrow> bool" where
  "newer_or_same getTime a b =
     (case (getTime (updatedAt a), getTime (updatedAt b)) of
        (Some ta, Some tb) \<Rightarrow> tb \<le> ta
      | _ \<Rightarrow> False)"

definition updatedAt_descending :: "(string \<Rightarrow> int option) \<Rightarrow> UnifiedTask list \<Rightarrow> bool" where
  "updatedAt_descending getTime ts = sorted_wrt (newer_or_same getTime) ts"

section \<open>Example values\<close>

text \<open>The records of the repository's tests, and provider clients that always succeed.\<close>

definition example_item :: todoist_item where
  "example_item =
     \<lparr>i_id = Some ''todo-456'', i_content = Some ''Review PR'',
      i_description = Some ''Check the new feature branch'', i_priority = Some 3,
      i_isCompleted = Some False, i_due = Some (Some ''2024-07-01''),
      i_labels = Some [''work'', ''code-review''], i_projectName = None,
      i_createdAt = Some ''2024-06-01T08:00:00.000Z''\<rparr>"

definition minimal_item :: todoist_item where
  "minimal_item =
     \<lparr>i_id = Some ''min'', i_content = Some ''Minimal'', i_description = None, i_priority = None,
      i_isCompleted = None, i_due = None, i_labels = None, i_projectName = None,
      i_createdAt = None\<rparr>"

definition example_page :: notion_page where
  "example_page =
     \<lparr>page_id = ''abc-123'',
      properties = Some [(''Name'', empty_prop\<lparr>p_title := Some [Some ''Buy groceries'']\<rparr>)],
      created_time = Some ''2024-06-01T10:00:00.000Z'',
      last_edited_time = Some ''2024-06-02T12:00:00.000Z''\<rparr>"

definition undated_page :: notion_page where
  "undated_page =
     \<lparr>page_id = ''abc-123'', properties = None, created_time = None, last_edited_time = None\<rparr>"

definition example_sdk :: todoist_api where
  "example_sdk =
     \<lparr>api_addTask = (\<lambda>log params. Inr example_item),
      api_updateTask = (\<lambda>log sid params. Inr example_item),
      api_closeTask = (\<lambda>log sid. Inr True),
      api_reopenTask = (\<lambda>log sid. Inr True)\<rparr>"

definition example_env :: todoist_env where
  "example_env = \<lparr>TODOIST_API_TOKEN = Some ''token'', todoist_sdk = example_sdk\<rparr>"

definition example_notion_env :: notion_env where
  "example_notion_env =
     \<lparr>NOTION_API_KEY = Some ''secret'', api_pages_update = (\<lambda>log pid props. Inr example_page)\<rparr>"

definition example_input :: CreateTaskInput where
  "example_input =
     \<lparr>c_title = ''Review PR'', c_source = ''todoist'', c_description = None, c_status = None,
      c_priority = Some High, c_dueDate = None, c_labels = None, c_projectName = None\<rparr>"

definition example_update :: "TaskStatus option \<Rightarrow> UpdateTaskInput" where
  "example_update st =
     \<lparr>u_title = None, u_description = None, u_status = st, u_priority = None, u_dueDate = None,
      u_labels = None\<rparr>"

definition example_getTime :: "string \<Rightarrow> int option" where
  "example_getTime s =
     map_of [(''2024-06-01T08:00:00.000Z'', 1717228800000),
             (''2024-06-01T10:00:00.000Z'', 1717236000000),
             (''2024-06-02T12:00:00.000Z'', 1717329600000)] s"

definition older_task :: UnifiedTask where
  "older_task = todoistItemToTask ''2024-06-03T00:00:00.000Z'' example_item"

definition newer_task :: UnifiedTask where
  "newer_task = notionPageToTask ''2024-06-03T00:00:00.000Z'' example_page"

definition unavailable :: js_error where
  "unavailable = \<lparr>message = ''unavailable'', err_status = Some 503, err_httpStatusCode = None\<rparr>"

text \<open>Connectors of which Notion is down and Todoist answers.\<close>

definition notion_down :: connectors where
  "notion_down =
     \<lparr>fetchNotionTasks_result = Inl unavailable,
      fetchTodoistTasks_result = Inr [older_task, newer_task],
      createNotionTask_result = (\<lambda>input. Inl unavailable),
      createTodoistTask_result = (\<lambda>input. Inr older_task),
      updateNotionTask_result = (\<lambda>sid updates. Inl unavailable),
      updateTodoistTask_result = (\<lambda>sid updates. Inr older_task),
      deleteNotionTask_result = (\<lambda>sid. Inl unavailable),
      deleteTodoistTask_result = (\<lambda>sid. Inr ())\<rparr>"

definition example_cache :: "TaskCache option" where
  "example_cache = Some \<lparr>tasks = [newer_task], timestamp = 1000\<rparr>"

section \<open>Properties of the mappings\<close>

text \<open>
  Claim C8. Writing a canonical status or priority with the reverse mapping and reading
  the provider value back with the normalizer's mapping gives the value written: for
  every status \<open>s\<close>, \<open>mapNotionStatus (unifiedStatusToNotion s) = s\<close>, and for every
  priority \<open>p\<close>, \<open>mapNotionPriority (unifiedPriorityToNotion p) = p\<close> and
  \<open>mapTodoistPriority (unifiedPriorityToTodoist p) = p\<close>.
\<close>

theorem status_priority_round_trip:
  "mapNotionStatus (Some (unifiedStatusToNotion s)) = s
   \<and> mapNotionPriority (Some (unifiedPriorityToNotion p)) = p
   \<and> mapTodoistPriority (Some (unifiedPriorityToTodoist p)) = p"
  by (cases s; cases p)
     (simp_all add: mapNotionStatus_def mapNotionPriority_def mapTodoistPriority_def truthy_def
        trim_def toLowerCase_def toLowerCase_char_def isWhiteSpace_def)

section \<open>Properties of the retry helper\<close>

declare withRetry_loop.simps [simp del]

text \<open>
  From attempt \<open>a\<close>, with \<open>k\<close> retryable failures ahead and then either an outcome that
  is not one or the last attempt, the loop makes \<open>k + 1\<close> calls, returns the outcome
  of the last and sleeps \<open>base * 2 ^ i\<close> after attempt \<open>i\<close>.
\<close>

lemma withRetry_loop_scripted:
  "a + k \<le> MAX_RETRIES \<Longrightarrow>
   (\<forall>i<k. retryable_failure st (out (a + i))) \<Longrightarrow>
   \<not> retryable_failure st (out (a + k)) \<or> a + k = MAX_RETRIES \<Longrightarrow>
   withRetry_loop base st (scripted out) a le a =
     (out (a + k), Suc (a + k), map (\<lambda>i. base * 2 ^ i) [a..<a + k])"
proof (induction k arbitrary: a le)
  case 0
  then show ?case
    by (subst withRetry_loop.simps)
       (auto simp: scripted_def retryable_failure_def split: sum.splits)
next
  case (Suc k)
  from Suc.prems(2) have "retryable_failure st (out (a + 0))" by blast
  then obtain err where err: "out a = Inl err" "isRetryable (st err)"
    by (auto simp: retryable_failure_def split: sum.splits)
  have lt: "a < MAX_RETRIES" using Suc.prems(1) by simp
  have rest: "\<forall>i<k. retryable_failure st (out (Suc a + i))"
    using Suc.prems(2) by (metis Suc_less_eq add_Suc_right add_Suc)
  have IH: "withRetry_loop base st (scripted out) (Suc a) (Some err) (Suc a) =
     (out (Suc a + k), Suc (Suc a + k), map (\<lambda>i. base * 2 ^ i) [Suc a..<Suc a + k])"
    using Suc.IH [of "Suc a" "Some err"] Suc.prems(1,3) rest by simp
  show ?case
    by (subst withRetry_loop.simps)
       (use err lt IH in \<open>simp add: scripted_def upt_conv_Cons\<close>)
qed

lemma withRetry_loop_log:
  "attempt \<le> MAX_RETRIES \<Longrightarrow>
   \<exists>n. 1 \<le> n \<and> n \<le> Suc MAX_RETRIES - attempt \<and>
       fst (snd (withRetry_loop base st (\<lambda>l. (resp l, l @ [c])) attempt le l)) = l @ replicate n c"
proof (induction "MAX_RETRIES - attempt" arbitrary: attempt le l)
  case 0
  then have "attempt = MAX_RETRIES" by simp
  then show ?case
    by (subst withRetry_loop.simps) (auto split: sum.splits intro: exI [of _ 1])
next
  case (Suc d)
  then have lt: "attempt < MAX_RETRIES" by simp
  show ?case
  proof (cases "retryable_failure st (resp l)")
    case False
    then show ?thesis using lt
      by (subst withRetry_loop.simps)
         (auto simp: retryable_failure_def split: sum.splits intro: exI [of _ 1])
  next
    case True
    then obtain err where err: "resp l = Inl err" "isRetryable (st err)"
      by (auto simp: retryable_failure_def split: sum.splits)
    have "\<exists>n. 1 \<le> n \<and> n \<le> Suc MAX_RETRIES - Suc attempt \<and>
       fst (snd (withRetry_loop base st (\<lambda>l. (resp l, l @ [c])) (Suc attempt) (Some err) (l @ [c])))
         = (l @ [c]) @ replicate n c"
      by (rule Suc.hyps(1)) (use Suc.hyps(2) lt in simp_all)
    then obtain n where n: "1 \<le> n" "n \<le> Suc MAX_RETRIES - Suc attempt"
      "fst (snd (withRetry_loop base st (\<lambda>l. (resp l, l @ [c])) (Suc attempt) (Some err) (l @ [c])))
         = (l @ [c]) @ replicate n c"
      by blast
    have "fst (snd (withRetry_loop base st (\<lambda>l. (resp l, l @ [c])) attempt le l)) = l @ replicate (Suc n) c"
      by (subst withRetry_loop.simps)
         (use err lt n(3) in \<open>simp add: case_prod_unfold Let_def\<close>)
    moreover have "1 \<le> Suc n" "Suc n \<le> Suc MAX_RETRIES - attempt" using n lt by simp_all
    ultimately show ?thesis by blast
  qed
qed

lemma withRetry_loop_first:
  "\<not> retryable_failure st (fst (fn s)) \<Longrightarrow>
   withRetry_loop base st fn 0 le s = (fst (fn s), snd (fn s), [])"
  by (subst withRetry_loop.simps)
     (auto simp: retryable_failure_def MAX_RETRIES_def split: sum.splits prod.splits)


lemma withRetry_loop_policy:
  "k \<le> MAX_RETRIES \<Longrightarrow>
   (\<forall>i<k. retryable_failure st (out i)) \<Longrightarrow>
   \<not> retryable_failure st (out k) \<or> k = MAX_RETRIES \<Longrightarrow>
   withRetry_loop base st (scripted out) 0 None 0 = (out k, Suc k, backoff base k)"
  using withRetry_loop_scripted [of 0 k st out base None] by (simp add: backoff_def)

text \<open>
  Claim C3. For a call wrapped by the \<^verbatim>\<open>withRetry\<close> of either connector, whose
  \<open>n\<close>-th invocation settles to \<open>out n\<close>: (1) if the first \<open>k\<close> invocations fail with
  status 429 or a status of 500 or more, \<open>k\<close> is at most \<open>MAX_RETRIES\<close> and the next
  invocation succeeds with \<open>v\<close>, then \<open>v\<close> is returned after \<open>k + 1\<close> invocations, the
  delays slept being base, 2 base, 4 base, ... (\<open>k\<close> of them, base 400 ms for Notion and
  500 ms for Todoist); (2) if all \<open>MAX_RETRIES + 1\<close> invocations fail with such a
  status, the error of the last one is thrown; (3) a failure with any other error is
  thrown at once: no delay follows it and no further invocation is made.
\<close>

theorem withRetry_policy:
  fixes out :: "nat \<Rightarrow> js_error + 'a"
  shows
  "(k \<le> MAX_RETRIES \<and> (\<forall>i<k. retryable_failure notion_status (out i)) \<and> out k = Inr v
      \<longrightarrow> notion_withRetry (scripted out) 0 = (Inr v, Suc k, backoff NOTION_BASE_DELAY_MS k))
   \<and> ((\<forall>i\<le>MAX_RETRIES. retryable_failure notion_status (out i))
      \<longrightarrow> (\<exists>e. out MAX_RETRIES = Inl e \<and>
            notion_withRetry (scripted out) 0 =
              (Inl e, Suc MAX_RETRIES, backoff NOTION_BASE_DELAY_MS MAX_RETRIES)))
   \<and> (k \<le> MAX_RETRIES \<and> (\<forall>i<k. retryable_failure notion_status (out i)) \<and> out k = Inl e
        \<and> \<not> isRetryable (notion_status e)
      \<longrightarrow> notion_withRetry (scripted out) 0 = (Inl e, Suc k, backoff NOTION_BASE_DELAY_MS k))
   \<and> (k \<le> MAX_RETRIES \<and> (\<forall>i<k. retryable_failure todoist_status (out i)) \<and> out k = Inr v
      \<longrightarrow> todoist_withRetry (scripted out) 0 = (Inr v, Suc k, backoff TODOIST_BASE_DELAY_MS k))
   \<and> ((\<forall>i\<le>MAX_RETRIES. retryable_failure todoist_status (out i))
      \<longrightarrow> (\<exists>e. out MAX_RETRIES = Inl e \<and>
            todoist_withRetry (scripted out) 0 =
              (Inl e, Suc MAX_RETRIES, backoff TODOIST_BASE_DELAY_MS MAX_RETRIES)))
   \<and> (k \<le> MAX_RETRIES \<and> (\<forall>i<k. retryable_failure todoist_status (out i)) \<and> out k = Inl e
        \<and> \<not> isRetryable (todoist_status e)
      \<longrightarrow> todoist_withRetry (scripted out) 0 = (Inl e, Suc k, backoff TODOIST_BASE_DELAY_MS k))"
proof -
  have success: "withRetry_loop base st (scripted out) 0 None 0 = (Inr v, Suc k, backoff base k)"
    if "k \<le> MAX_RETRIES" "\<forall>i<k. retryable_failure st (out i)" "out k = Inr v"
    for base st
    using withRetry_loop_policy [of k st out base] that by (simp add: retryable_failure_def)
  have exhausted: "\<exists>e. out MAX_RETRIES = Inl e \<and>
      withRetry_loop base st (scripted out) 0 None 0 =
        (Inl e, Suc MAX_RETRIES, backoff base MAX_RETRIES)"
    if all: "\<forall>i\<le>MAX_RETRIES. retryable_failure st (out i)" for base st
  proof -
    from all have "retryable_failure st (out MAX_RETRIES)" by simp
    then obtain e where e: "out MAX_RETRIES = Inl e"
      by (auto simp: retryable_failure_def split: sum.splits)
    from withRetry_loop_policy [of MAX_RETRIES st out base] all e show ?thesis by simp
  qed
  have permanent: "withRetry_loop base st (scripted out) 0 None 0 = (Inl e, Suc k, backoff base k)"
    if "k \<le> MAX_RETRIES" "\<forall>i<k. retryable_failure st (out i)" "out k = Inl e"
       "\<not> isRetryable (st e)"
    for base st
    using withRetry_loop_policy [of k st out base] that by (simp add: retryable_failure_def)
  show ?thesis
    unfolding notion_withRetry_def todoist_withRetry_def
    using success exhausted permanent by blast
qed


text \<open>
  The policy at concrete calls: two rate-limit failures and then the value 7; a server
  error at every attempt; a not-found error at the first attempt.
\<close>

theorem withRetry_policy_witness:
  "notion_withRetry (scripted (\<lambda>n. if n < 2 then Inl \<lparr>message = ''rate limited'', err_status = Some 429, err_httpStatusCode = None\<rparr> else Inr (7::nat))) 0
     = (Inr 7, 3, [400, 800])
   \<and> todoist_withRetry (scripted (\<lambda>n. if n < 2 then Inl \<lparr>message = ''rate limited'', err_status = None, err_httpStatusCode = Some 429\<rparr> else Inr (7::nat))) 0
     = (Inr 7, 3, [500, 1000])
   \<and> notion_withRetry (scripted (\<lambda>n. Inl \<lparr>message = ''unavailable'', err_status = Some 503, err_httpStatusCode = None\<rparr> :: js_error + nat)) 0
     = (Inl \<lparr>message = ''unavailable'', err_status = Some 503, err_httpStatusCode = None\<rparr>, 6,
        [400, 800, 1600, 3200, 6400])
   \<and> todoist_withRetry (scripted (\<lambda>n. Inl \<lparr>message = ''unavailable'', err_status = Some 503, err_httpStatusCode = None\<rparr> :: js_error + nat)) 0
     = (Inl \<lparr>message = ''unavailable'', err_status = Some 503, err_httpStatusCode = None\<rparr>, 6,
        [500, 1000, 2000, 4000, 8000])
   \<and> notion_withRetry (scripted (\<lambda>n. Inl \<lparr>message = ''not found'', err_status = Some 404, err_httpStatusCode = None\<rparr> :: js_error + nat)) 0
     = (Inl \<lparr>message = ''not found'', err_status = Some 404, err_httpStatusCode = None\<rparr>, 1, [])
   \<and> todoist_withRetry (scripted (\<lambda>n. Inl \<lparr>message = ''not found'', err_status = Some 500, err_httpStatusCode = Some 404\<rparr> :: js_error + nat)) 0
     = (Inl \<lparr>message = ''not found'', err_status = Some 500, err_httpStatusCode = Some 404\<rparr>, 1, [])"
proof -
  let ?e429 = "\<lparr>message = ''rate limited'', err_status = Some 429, err_httpStatusCode = None\<rparr>"
  let ?h429 = "\<lparr>message = ''rate limited'', err_status = None, err_httpStatusCode = Some 429\<rparr>"
  let ?e503 = "\<lparr>message = ''unavailable'', err_status = Some 503, err_httpStatusCode = None\<rparr>"
  let ?e404 = "\<lparr>message = ''not found'', err_status = Some 404, err_httpStatusCode = None\<rparr>"
  let ?h404 = "\<lparr>message = ''not found'', err_status = Some 500, err_httpStatusCode = Some 404\<rparr>"
  let ?outN = "\<lambda>n::nat. if n < 2 then Inl ?e429 else Inr (7::nat)"
  let ?outT = "\<lambda>n::nat. if n < 2 then Inl ?h429 else Inr (7::nat)"
  let ?down = "\<lambda>n::nat. Inl ?e503 :: js_error + nat"
  let ?goneN = "\<lambda>n::nat. Inl ?e404 :: js_error + nat"
  let ?goneT = "\<lambda>n::nat. Inl ?h404 :: js_error + nat"
  have b: "backoff NOTION_BASE_DELAY_MS 2 = [400, 800]"
    "backoff TODOIST_BASE_DELAY_MS 2 = [500, 1000]"
    "backoff NOTION_BASE_DELAY_MS MAX_RETRIES = [400, 800, 1600, 3200, 6400]"
    "backoff TODOIST_BASE_DELAY_MS MAX_RETRIES = [500, 1000, 2000, 4000, 8000]"
    "backoff NOTION_BASE_DELAY_MS 0 = []" "backoff TODOIST_BASE_DELAY_MS 0 = []"
    by (simp_all add: backoff_def NOTION_BASE_DELAY_MS_def TODOIST_BASE_DELAY_MS_def
          MAX_RETRIES_def upt_rec)
  have k: "(2::nat) \<le> MAX_RETRIES" "Suc MAX_RETRIES = 6" by (simp_all add: MAX_RETRIES_def)
  have n1: "\<forall>i<2. retryable_failure notion_status (?outN i)"
    by (simp add: retryable_failure_def isRetryable_def notion_status_def)
  have t1: "\<forall>i<2. retryable_failure todoist_status (?outT i)"
    by (simp add: retryable_failure_def isRetryable_def todoist_status_def)
  have c1: "notion_withRetry (scripted ?outN) 0 = (Inr 7, 3, [400, 800])"
    using withRetry_policy [of 2 ?outN 7] k n1 b by (simp add: numeral_3_eq_3 numeral_2_eq_2)
  have c2: "todoist_withRetry (scripted ?outT) 0 = (Inr 7, 3, [500, 1000])"
    using withRetry_policy [of 2 ?outT 7] k t1 b by (simp add: numeral_3_eq_3 numeral_2_eq_2)
  have d: "\<forall>i\<le>MAX_RETRIES. retryable_failure notion_status (?down i)"
    "\<forall>i\<le>MAX_RETRIES. retryable_failure todoist_status (?down i)"
    by (simp_all add: retryable_failure_def isRetryable_def notion_status_def todoist_status_def)
  have c3: "notion_withRetry (scripted ?down) 0 = (Inl ?e503, 6, [400, 800, 1600, 3200, 6400])"
    using withRetry_policy [of 0 ?down] k d b by simp
  have c4: "todoist_withRetry (scripted ?down) 0 = (Inl ?e503, 6, [500, 1000, 2000, 4000, 8000])"
    using withRetry_policy [of 0 ?down] k d b by simp
  have g: "\<not> isRetryable (notion_status ?e404)" "\<not> isRetryable (todoist_status ?h404)"
    by (simp_all add: isRetryable_def notion_status_def todoist_status_def)
  have c5: "notion_withRetry (scripted ?goneN) 0 = (Inl ?e404, 1, [])"
    using withRetry_policy [of 0 ?goneN _ ?e404] g b by simp
  have c6: "todoist_withRetry (scripted ?goneT) 0 = (Inl ?h404, 1, [])"
    using withRetry_policy [of 0 ?goneT _ ?h404] g b by simp
  from c1 c2 c3 c4 c5 c6 show ?thesis by blast
qed

section \<open>Properties of the normalizers\<close>

text \<open>
  The Notion title is the fragments' plain text concatenated in order with no
  separator, or \<open>Untitled\<close> when that is empty; it is never empty.
\<close>

lemma notion_title:
  "title (notionPageToTask now page) =
     (let t = richTextToPlain (p_title (prop_of (case properties page of Some ps \<Rightarrow> ps | None \<Rightarrow> [])
                 [''Name'', ''Title'', ''title'']))
      in if t = [] then ''Untitled'' else t)"
  by (simp add: notionPageToTask_def Let_def)

lemma notion_title_nonempty: "title (notionPageToTask now page) \<noteq> []"
  by (simp add: notion_title Let_def)

lemma richTextToPlain_concat:
  "richTextToPlain (Some (map Some frags)) = concat frags"
  by (simp add: richTextToPlain_def comp_def)

lemma todoist_title:
  "title (todoistItemToTask now item) = (case i_content item of Some c \<Rightarrow> c | None \<Rightarrow> ''Untitled'')"
  by (simp add: todoistItemToTask_def Let_def)

text \<open>
  Claim C4. Both normalizers are to return a non-empty title, falling back to
  \<open>Untitled\<close> when the source title is empty or missing. \<^verbatim>\<open>todoistItemToTask\<close>
  tests the content with \<^verbatim>\<open>??\<close>, which lets the empty string through: the test item
  with its content emptied is normalized to a task whose title is empty.
\<close>

theorem todoist_empty_content_title:
  "title (todoistItemToTask ''2024-06-03T00:00:00.000Z'' (example_item\<lparr>i_content := Some []\<rparr>)) = []"
  by (simp add: todoistItemToTask_def example_item_def Let_def)

text \<open>The Todoist normalizer never returns an empty label list.\<close>

lemma todoist_labels: "labels (todoistItemToTask now item) \<noteq> Some []"
  by (simp add: todoistItemToTask_def Let_def split: option.splits)

text \<open>
  Claim C5. The labels of a normalized task are to be absent or non-empty.
  \<^verbatim>\<open>notionPageToTask\<close> keeps any array it finds in \<^verbatim>\<open>multi_select\<close>: the test page
  with an empty \<^verbatim>\<open>Tags\<close> selection is normalized to a task whose labels are the empty
  list, not absent.
\<close>

theorem notion_empty_multi_select_labels:
  "labels (notionPageToTask ''2024-06-03T00:00:00.000Z''
     (example_page\<lparr>properties :=
        Some [(''Name'', empty_prop\<lparr>p_title := Some [Some ''Buy groceries'']\<rparr>),
              (''Tags'', empty_prop\<lparr>p_multi_select := Some []\<rparr>)]\<rparr>)) = Some []"
  by (simp add: notionPageToTask_def example_page_def empty_prop_def Let_def)

text \<open>
  Claim C7, as stated: normalizing a record twice gives the same task, also when the
  record has no created timestamp. It fails on the minimal test item, normalized at
  two clock readings one second apart.
\<close>

theorem normalize_clock_counterexample:
  "todoistItemToTask ''2024-06-01T08:00:00.000Z'' minimal_item
   \<noteq> todoistItemToTask ''2024-06-01T08:00:01.000Z'' minimal_item"
  by (simp add: todoistItemToTask_def minimal_item_def Let_def)

text \<open>
  Claim C7, amended. A record that carries its created timestamp (\<^verbatim>\<open>created_time\<close>
  for Notion, \<^verbatim>\<open>createdAt\<close> for Todoist) is normalized to the same task at any two
  clock readings, also when the Notion page has no \<^verbatim>\<open>last_edited_time\<close>. A record
  without it takes the clock reading as its created timestamp, so two normalizations
  agree exactly when the two readings do.
\<close>

theorem normalize_deterministic:
  "(created_time page \<noteq> None \<longrightarrow> notionPageToTask now1 page = notionPageToTask now2 page)
   \<and> (i_createdAt item \<noteq> None \<longrightarrow> todoistItemToTask now1 item = todoistItemToTask now2 item)
   \<and> (created_time page = None \<longrightarrow>
        (notionPageToTask now1 page = notionPageToTask now2 page \<longleftrightarrow> now1 = now2))
   \<and> (i_createdAt item = None \<longrightarrow>
        (todoistItemToTask now1 item = todoistItemToTask now2 item \<longleftrightarrow> now1 = now2))"
  by (auto simp: notionPageToTask_def todoistItemToTask_def Let_def split: option.splits)

theorem normalize_deterministic_witness:
  "notionPageToTask ''2024-06-03T00:00:00.000Z'' example_page
     = notionPageToTask ''2024-06-04T00:00:00.000Z'' example_page
   \<and> todoistItemToTask ''2024-06-03T00:00:00.000Z'' example_item
     = todoistItemToTask ''2024-06-04T00:00:00.000Z'' example_item
   \<and> notionPageToTask ''2024-06-03T00:00:00.000Z'' undated_page
     \<noteq> notionPageToTask ''2024-06-04T00:00:00.000Z'' undated_page
   \<and> todoistItemToTask ''2024-06-03T00:00:00.000Z'' minimal_item
     \<noteq> todoistItemToTask ''2024-06-04T00:00:00.000Z'' minimal_item"
proof -
  have dated: "created_time example_page \<noteq> None" "i_createdAt example_item \<noteq> None"
    by (simp_all add: example_page_def example_item_def)
  have undated: "created_time undated_page = None" "i_createdAt minimal_item = None"
    by (simp_all add: undated_page_def minimal_item_def)
  have clocks: "''2024-06-03T00:00:00.000Z'' \<noteq> ''2024-06-04T00:00:00.000Z''" by simp
  from normalize_deterministic [of example_page "''2024-06-03T00:00:00.000Z''"
         "''2024-06-04T00:00:00.000Z''" example_item]
       normalize_deterministic [of undated_page "''2024-06-03T00:00:00.000Z''"
         "''2024-06-04T00:00:00.000Z''" minimal_item]
       dated undated clocks
  show ?thesis by blast
qed

section \<open>Properties of the connectors\<close>

text \<open>
  Claim C10. \<^verbatim>\<open>createTodoistTask\<close> reads neither \<^verbatim>\<open>status\<close> nor \<^verbatim>\<open>projectName\<close>:
  two inputs that agree on title, description, priority, due date and labels give the
  same request payload and the same result from the same provider, and a task that is
  returned is the normalized response to the add request, whose status is \<open>Done\<close> or
  \<open>Todo\<close> by the response's \<^verbatim>\<open>isCompleted\<close> flag.
\<close>

theorem create_ignores_status_project:
  assumes "c_title a = c_title b" "c_description a = c_description b"
    "c_priority a = c_priority b" "c_dueDate a = c_dueDate b" "c_labels a = c_labels b"
  shows "todoist_addParams a = todoist_addParams b
     \<and> createTodoistTask env now a log = createTodoistTask env now b log
     \<and> (fst (createTodoistTask env now a log) = Inr t \<longrightarrow>
          (\<exists>item. fst (todoist_withRetry (client_addTask (todoist_sdk env) (todoist_addParams a)) log)
                    = Inr item
                 \<and> t = todoistItemToTask now item
                 \<and> status t = (if i_isCompleted item = Some True then Done else Todo)))"
proof -
  have eq: "todoist_addParams a = todoist_addParams b"
    using assms by (simp add: todoist_addParams_def)
  then have same: "createTodoistTask env now a log = createTodoistTask env now b log"
    by (simp add: createTodoistTask_def cong: sum.case_cong)
  have resp: "\<exists>item. fst (todoist_withRetry (client_addTask (todoist_sdk env) (todoist_addParams a)) log)
                    = Inr item
                 \<and> t = todoistItemToTask now item
                 \<and> status t = (if i_isCompleted item = Some True then Done else Todo)"
    if ok: "fst (createTodoistTask env now a log) = Inr t"
  proof -
    obtain r l' ds where c:
      "todoist_withRetry (client_addTask (todoist_sdk env) (todoist_addParams a)) log = (r, l', ds)"
      by (cases "todoist_withRetry (client_addTask (todoist_sdk env) (todoist_addParams a)) log") auto
    from ok have client: "getTodoistClient env = Inr (todoist_sdk env)"
      by (auto simp: createTodoistTask_def getTodoistClient_def split: if_splits)
    from ok c client obtain item where "r = Inr item" "t = todoistItemToTask now item"
      by (cases r) (auto simp: createTodoistTask_def)
    moreover have "status (todoistItemToTask now item)
        = (if i_isCompleted item = Some True then Done else Todo)"
      by (auto simp: todoistItemToTask_def Let_def split: option.splits)
    ultimately show ?thesis using c by simp
  qed
  from eq same resp show ?thesis by blast
qed

text \<open>
  A create that asks for status \<open>Done\<close> in project \<open>Home\<close> sends the request of the
  same create without them, and the task returned has the status of the response.
\<close>

theorem create_ignores_status_project_witness:
  "todoist_addParams (example_input\<lparr>c_status := Some Done, c_projectName := Some ''Home''\<rparr>)
     = todoist_addParams example_input
   \<and> createTodoistTask example_env ''2024-06-03T00:00:00.000Z''
        (example_input\<lparr>c_status := Some Done, c_projectName := Some ''Home''\<rparr>) []
     = createTodoistTask example_env ''2024-06-03T00:00:00.000Z'' example_input []
   \<and> (\<exists>t. fst (createTodoistTask example_env ''2024-06-03T00:00:00.000Z''
                (example_input\<lparr>c_status := Some Done, c_projectName := Some ''Home''\<rparr>) [])
             = Inr t \<and> status t = Todo)"
proof -
  let ?a = "example_input\<lparr>c_status := Some Done, c_projectName := Some ''Home''\<rparr>"
  let ?now = "''2024-06-03T00:00:00.000Z''"
  have call: "todoist_withRetry (client_addTask example_sdk (todoist_addParams ?a)) []
      = (Inr example_item, [AddTask (todoist_addParams ?a)], [])"
    unfolding todoist_withRetry_def
    by (subst withRetry_loop.simps)
       (simp add: client_addTask_def example_sdk_def MAX_RETRIES_def)
  have ok: "fst (createTodoistTask example_env ?now ?a []) = Inr (todoistItemToTask ?now example_item)"
    by (simp add: createTodoistTask_def getTodoistClient_def example_env_def truthy_def call)
  have flag: "i_isCompleted example_item = Some False" by (simp add: example_item_def)
  from create_ignores_status_project [of ?a example_input example_env ?now "[]"
         "todoistItemToTask ?now example_item"] ok call flag
  show ?thesis by (simp add: example_env_def)
qed

text \<open>
  The requests a retried client method leaves in the log are copies of the one
  request, between 1 and \<open>MAX_RETRIES + 1\<close> of them, and one only when the first
  attempt does not fail with a retryable status.
\<close>

lemma todoist_withRetry_log:
  "\<exists>n. 1 \<le> n \<and> n \<le> Suc MAX_RETRIES \<and>
       fst (snd (todoist_withRetry (\<lambda>l. (resp l, l @ [c])) l)) = l @ replicate n c"
  unfolding todoist_withRetry_def
  using withRetry_loop_log [of 0 TODOIST_BASE_DELAY_MS todoist_status resp c None l] by simp

lemma notion_withRetry_log:
  "\<exists>n. 1 \<le> n \<and> n \<le> Suc MAX_RETRIES \<and>
       fst (snd (notion_withRetry (\<lambda>l. (resp l, l @ [c])) l)) = l @ replicate n c"
  unfolding notion_withRetry_def
  using withRetry_loop_log [of 0 NOTION_BASE_DELAY_MS notion_status resp c None l] by simp

lemma todoist_withRetry_first:
  "\<not> retryable_failure todoist_status (resp l) \<Longrightarrow>
   todoist_withRetry (\<lambda>l. (resp l, l @ [c])) l = (resp l, l @ [c], [])"
  unfolding todoist_withRetry_def by (simp add: withRetry_loop_first)

text \<open>
  Claim C6. When the field update of \<^verbatim>\<open>updateTodoistTask\<close> has succeeded (after
  the attempts \<open>l1\<close> records): an update to status \<open>Done\<close> is followed by the close
  request and nothing else, an update to \<open>Todo\<close> or \<open>InProgress\<close> by the reopen request
  and nothing else, and an update without status by no request. The close or reopen
  request is one call under the retry policy: it is sent once unless an attempt fails
  with a retryable status, and at most \<open>MAX_RETRIES + 1\<close> times. Every request of
  \<^verbatim>\<open>updateNotionTask\<close> is its one page update, whatever the status.
\<close>

theorem status_transition_calls:
  assumes tok: "truthy (TODOIST_API_TOKEN env)"
    and upd: "todoist_withRetry (client_updateTask (todoist_sdk env) sid (todoist_updateParams updates)) l
                = (Inr task, l1, ds)"
  shows
  "(\<exists>m. 1 \<le> m \<and> m \<le> Suc MAX_RETRIES \<and>
        l1 = l @ replicate m (UpdateTask sid (todoist_updateParams updates)))
   \<and> (u_status updates = Some Done \<longrightarrow>
        (\<exists>n. 1 \<le> n \<and> n \<le> Suc MAX_RETRIES \<and>
             snd (updateTodoistTask env now sid updates l) = l1 @ replicate n (CloseTask sid))
        \<and> (\<not> retryable_failure todoist_status (api_closeTask (todoist_sdk env) l1 sid) \<longrightarrow>
             snd (updateTodoistTask env now sid updates l) = l1 @ [CloseTask sid]))
   \<and> (u_status updates = Some Todo \<or> u_status updates = Some InProgress \<longrightarrow>
        (\<exists>n. 1 \<le> n \<and> n \<le> Suc MAX_RETRIES \<and>
             snd (updateTodoistTask env now sid updates l) = l1 @ replicate n (ReopenTask sid))
        \<and> (\<not> retryable_failure todoist_status (api_reopenTask (todoist_sdk env) l1 sid) \<longrightarrow>
             snd (updateTodoistTask env now sid updates l) = l1 @ [ReopenTask sid]))
   \<and> (u_status updates = None \<longrightarrow> snd (updateTodoistTask env now sid updates l) = l1)
   \<and> (\<exists>m. m \<le> Suc MAX_RETRIES \<and>
        snd (updateNotionTask nenv now pid updates nl) =
          nl @ replicate m (PagesUpdate pid (notion_updateProps updates)))"
proof -
  let ?sdk = "todoist_sdk env"
  have client: "getTodoistClient env = Inr ?sdk"
    using tok by (simp add: getTodoistClient_def)
  have close_fn: "client_closeTask ?sdk sid = (\<lambda>l. (api_closeTask ?sdk l sid, l @ [CloseTask sid]))"
    by (rule ext) (simp add: client_closeTask_def)
  have reopen_fn: "client_reopenTask ?sdk sid = (\<lambda>l. (api_reopenTask ?sdk l sid, l @ [ReopenTask sid]))"
    by (rule ext) (simp add: client_reopenTask_def)
  have update_fn: "client_updateTask ?sdk sid (todoist_updateParams updates) =
      (\<lambda>l. (api_updateTask ?sdk l sid (todoist_updateParams updates),
            l @ [UpdateTask sid (todoist_updateParams updates)]))"
    by (rule ext) (simp add: client_updateTask_def)
  have p1: "\<exists>m. 1 \<le> m \<and> m \<le> Suc MAX_RETRIES \<and>
        l1 = l @ replicate m (UpdateTask sid (todoist_updateParams updates))"
    using todoist_withRetry_log [of "\<lambda>l. api_updateTask ?sdk l sid (todoist_updateParams updates)"
            "UpdateTask sid (todoist_updateParams updates)" l] upd
    by (simp add: update_fn)
  have log_done: "snd (updateTodoistTask env now sid updates l) =
      fst (snd (todoist_withRetry (client_closeTask ?sdk sid) l1))"
    if "u_status updates = Some Done"
  proof -
    obtain rc l2 ds2 where c: "todoist_withRetry (client_closeTask ?sdk sid) l1 = (rc, l2, ds2)"
      by (cases "todoist_withRetry (client_closeTask ?sdk sid) l1") auto
    show ?thesis
      using that by (cases rc) (simp_all add: updateTodoistTask_def client upd c)
  qed
  have log_reopen: "snd (updateTodoistTask env now sid updates l) =
      fst (snd (todoist_withRetry (client_reopenTask ?sdk sid) l1))"
    if "u_status updates = Some Todo \<or> u_status updates = Some InProgress"
  proof -
    obtain rr l3 ds3 where c: "todoist_withRetry (client_reopenTask ?sdk sid) l1 = (rr, l3, ds3)"
      by (cases "todoist_withRetry (client_reopenTask ?sdk sid) l1") auto
    show ?thesis
      using that by (cases rr) (auto simp: updateTodoistTask_def client upd c)
  qed
  have log_none: "snd (updateTodoistTask env now sid updates l) = l1"
    if "u_status updates = None"
    using that by (simp add: updateTodoistTask_def client upd)
  have p2: "\<exists>n. 1 \<le> n \<and> n \<le> Suc MAX_RETRIES \<and>
             snd (updateTodoistTask env now sid updates l) = l1 @ replicate n (CloseTask sid)"
    if "u_status updates = Some Done"
    using todoist_withRetry_log [of "\<lambda>l. api_closeTask ?sdk l sid" "CloseTask sid" l1]
    by (simp add: log_done [OF that] close_fn)
  have p2': "snd (updateTodoistTask env now sid updates l) = l1 @ [CloseTask sid]"
    if "u_status updates = Some Done"
       "\<not> retryable_failure todoist_status (api_closeTask ?sdk l1 sid)"
    using todoist_withRetry_first [of "\<lambda>l. api_closeTask ?sdk l sid" l1 "CloseTask sid"] that(2)
    by (simp add: log_done [OF that(1)] close_fn)
  have p3: "\<exists>n. 1 \<le> n \<and> n \<le> Suc MAX_RETRIES \<and>
             snd (updateTodoistTask env now sid updates l) = l1 @ replicate n (ReopenTask sid)"
    if "u_status updates = Some Todo \<or> u_status updates = Some InProgress"
    using todoist_withRetry_log [of "\<lambda>l. api_reopenTask ?sdk l sid" "ReopenTask sid" l1]
    by (simp add: log_reopen [OF that] reopen_fn)
  have p3': "snd (updateTodoistTask env now sid updates l) = l1 @ [ReopenTask sid]"
    if "u_status updates = Some Todo \<or> u_status updates = Some InProgress"
       "\<not> retryable_failure todoist_status (api_reopenTask ?sdk l1 sid)"
    using todoist_withRetry_first [of "\<lambda>l. api_reopenTask ?sdk l sid" l1 "ReopenTask sid"] that(2)
    by (simp add: log_reopen [OF that(1)] reopen_fn)
  have p5: "\<exists>m. m \<le> Suc MAX_RETRIES \<and>
        snd (updateNotionTask nenv now pid updates nl) =
          nl @ replicate m (PagesUpdate pid (notion_updateProps updates))"
  proof (cases "getNotionClient nenv")
    case (Inl e)
    then have "snd (updateNotionTask nenv now pid updates nl) = nl @ replicate 0 (PagesUpdate pid (notion_updateProps updates))"
      by (simp add: updateNotionTask_def)
    then show ?thesis by blast
  next
    case (Inr notion)
    have fn: "client_pages_update notion pid (notion_updateProps updates) =
        (\<lambda>l. (api_pages_update notion l pid (notion_updateProps updates),
              l @ [PagesUpdate pid (notion_updateProps updates)]))"
      by (rule ext) (simp add: client_pages_update_def)
    have "snd (updateNotionTask nenv now pid updates nl) =
        fst (snd (notion_withRetry (client_pages_update notion pid (notion_updateProps updates)) nl))"
    proof -
      obtain r l' ds' where c:
        "notion_withRetry (client_pages_update notion pid (notion_updateProps updates)) nl = (r, l', ds')"
        by (cases "notion_withRetry (client_pages_update notion pid (notion_updateProps updates)) nl") auto
      show ?thesis by (cases r) (simp_all add: updateNotionTask_def Inr c)
    qed
    with notion_withRetry_log [of "\<lambda>l. api_pages_update notion l pid (notion_updateProps updates)"
           "PagesUpdate pid (notion_updateProps updates)" nl]
    show ?thesis by (auto simp: fn)
  qed
  from p1 p2 p2' p3 p3' log_none p5 show ?thesis by blast
qed

text \<open>
  With a provider that answers every request at once: an update to \<open>Done\<close> sends the
  update and one close, an update to \<open>Todo\<close> the update and one reopen, and the Notion
  update one page update.
\<close>

theorem status_transition_calls_witness:
  "snd (updateTodoistTask example_env ''2024-06-03T00:00:00.000Z'' ''todo-456''
          (example_update (Some Done)) [])
     = [UpdateTask ''todo-456'' (todoist_updateParams (example_update (Some Done))),
        CloseTask ''todo-456'']
   \<and> snd (updateTodoistTask example_env ''2024-06-03T00:00:00.000Z'' ''todo-456''
          (example_update (Some Todo)) [])
     = [UpdateTask ''todo-456'' (todoist_updateParams (example_update (Some Todo))),
        ReopenTask ''todo-456'']
   \<and> snd (updateTodoistTask example_env ''2024-06-03T00:00:00.000Z'' ''todo-456''
          (example_update None) [])
     = [UpdateTask ''todo-456'' (todoist_updateParams (example_update None))]
   \<and> (\<exists>m\<le>Suc MAX_RETRIES.
        snd (updateNotionTask example_notion_env ''2024-06-03T00:00:00.000Z'' ''abc-123''
               (example_update (Some Done)) [])
          = replicate m (PagesUpdate ''abc-123'' (notion_updateProps (example_update (Some Done)))))"
proof -
  let ?now = "''2024-06-03T00:00:00.000Z''"
  let ?sid = "''todo-456''"
  have tok: "truthy (TODOIST_API_TOKEN example_env)"
    by (simp add: example_env_def truthy_def)
  have sdk: "todoist_sdk example_env = example_sdk" by (simp add: example_env_def)
  have upd: "todoist_withRetry (client_updateTask (todoist_sdk example_env) ?sid
                 (todoist_updateParams (example_update st))) []
      = (Inr example_item, [UpdateTask ?sid (todoist_updateParams (example_update st))], [])" for st
    unfolding todoist_withRetry_def sdk
    by (subst withRetry_loop.simps)
       (simp add: client_updateTask_def example_sdk_def MAX_RETRIES_def)
  have quiet: "\<not> retryable_failure todoist_status (api_closeTask (todoist_sdk example_env) l ?sid)"
    "\<not> retryable_failure todoist_status (api_reopenTask (todoist_sdk example_env) l ?sid)" for l
    by (simp_all add: sdk example_sdk_def retryable_failure_def)
  have st: "u_status (example_update st) = st" for st by (simp add: example_update_def)
  from status_transition_calls [OF tok upd [of "Some Done"], of ?now example_notion_env "''abc-123''" "[]"]
       status_transition_calls [OF tok upd [of "Some Todo"], of ?now example_notion_env "''abc-123''" "[]"]
       status_transition_calls [OF tok upd [of None], of ?now example_notion_env "''abc-123''" "[]"]
       quiet st
  show ?thesis by simp
qed

section \<open>Properties of the aggregation service\<close>

text \<open>The sort keeps the elements and, on timestamps that denote dates, orders them.\<close>

lemma mset_insert_sorted: "mset (insert_sorted cmp x ys) = add_mset x (mset ys)"
  by (induction ys) auto

lemma mset_js_sort: "mset (js_sort cmp xs) = mset xs"
  unfolding js_sort_def by (induction xs) (auto simp: mset_insert_sorted)

lemma set_insert_sorted: "set (insert_sorted cmp x ys) = insert x (set ys)"
  using mset_insert_sorted [of cmp x ys] by (metis set_mset_add_mset_insert set_mset_mset)

lemma js_sort_Nil: "js_sort cmp [] = []"
  by (simp add: js_sort_def)

lemma set_js_sort: "set (js_sort cmp xs) = set xs"
  using mset_js_sort [of cmp xs] by (metis set_mset_mset)

lemma insert_sorted_descending:
  assumes "getTime (updatedAt x) \<noteq> None" "\<forall>y\<in>set ys. getTime (updatedAt y) \<noteq> None"
    "sorted_wrt (newer_or_same getTime) ys"
  shows "sorted_wrt (newer_or_same getTime) (insert_sorted (byUpdatedAtDesc getTime) x ys)"
  using assms
proof (induction ys)
  case Nil
  then show ?case by simp
next
  case (Cons y ys)
  from Cons.prems obtain tx ty where t: "getTime (updatedAt x) = Some tx" "getTime (updatedAt y) = Some ty"
    by auto
  have cmp: "byUpdatedAtDesc getTime x y = Some (ty - tx)"
    using t by (simp add: byUpdatedAtDesc_def)
  show ?case
  proof (cases "ty - tx > 0")
    case True
    have "newer_or_same getTime y x" using t True by (simp add: newer_or_same_def)
    moreover have "sorted_wrt (newer_or_same getTime) (insert_sorted (byUpdatedAtDesc getTime) x ys)"
      using Cons by simp
    ultimately show ?thesis
      using Cons.prems True
      by (auto simp: cmp set_insert_sorted)
  next
    case False
    have xy: "newer_or_same getTime x y" using t False by (simp add: newer_or_same_def)
    have "newer_or_same getTime x z" if "z \<in> set ys" for z
    proof -
      from Cons.prems that have yz: "newer_or_same getTime y z" by simp
      then show ?thesis using xy t
        by (auto simp: newer_or_same_def split: option.splits)
    qed
    then show ?thesis
      using Cons.prems False xy by (auto simp: cmp)
  qed
qed

lemma js_sort_descending:
  "\<forall>t\<in>set xs. getTime (updatedAt t) \<noteq> None \<Longrightarrow>
   sorted_wrt (newer_or_same getTime) (js_sort (byUpdatedAtDesc getTime) xs)"
proof (induction xs)
  case Nil
  then show ?case by (simp add: js_sort_def)
next
  case (Cons x xs)
  have "js_sort (byUpdatedAtDesc getTime) (x # xs) =
      insert_sorted (byUpdatedAtDesc getTime) x (js_sort (byUpdatedAtDesc getTime) xs)"
    by (simp add: js_sort_def)
  with Cons show ?case
    by (simp add: insert_sorted_descending set_js_sort)
qed

text \<open>
  Claim C1. On a cache miss \<^verbatim>\<open>getAllTasks\<close> returns and never throws, whatever the
  two fetches settle to. If one fetch is rejected with \<open>e\<close> and the other fulfilled with
  \<open>ts\<close>, the result holds exactly the records of \<open>ts\<close>, newest \<^verbatim>\<open>updatedAt\<close> first
  (the timestamps being dates), and \<open>e\<close> is logged. If both are rejected the result is
  the empty list and both rejections are logged.
\<close>

theorem getAllTasks_partial_failure:
  assumes miss: "\<not> isCacheValid cache now"
  shows
  "(\<exists>rs. returned (getAllTasks getTime conn now now' cache) = Inr rs)
   \<and> (fetchNotionTasks_result conn = Inl e \<and> fetchTodoistTasks_result conn = Inr ts \<longrightarrow>
        (\<exists>rs. returned (getAllTasks getTime conn now now' cache) = Inr rs \<and> mset rs = mset ts
              \<and> (valid_timestamps getTime ts \<longrightarrow> updatedAt_descending getTime rs))
        \<and> logged (getAllTasks getTime conn now now' cache) = [e])
   \<and> (fetchNotionTasks_result conn = Inr ts \<and> fetchTodoistTasks_result conn = Inl e \<longrightarrow>
        (\<exists>rs. returned (getAllTasks getTime conn now now' cache) = Inr rs \<and> mset rs = mset ts
              \<and> (valid_timestamps getTime ts \<longrightarrow> updatedAt_descending getTime rs))
        \<and> logged (getAllTasks getTime conn now now' cache) = [e])
   \<and> (fetchNotionTasks_result conn = Inl e \<and> fetchTodoistTasks_result conn = Inl e' \<longrightarrow>
        returned (getAllTasks getTime conn now now' cache) = Inr []
        \<and> logged (getAllTasks getTime conn now now' cache) = [e, e'])"
  using miss
  by (auto simp: getAllTasks_def Let_def mset_js_sort updatedAt_descending_def valid_timestamps_def
        list_all_iff js_sort_descending js_sort_Nil)

text \<open>
  With Notion down and Todoist returning two tasks, oldest first, the service returns
  the two, newest first, and logs the Notion failure.
\<close>

theorem getAllTasks_partial_failure_witness:
  "\<not> isCacheValid None 0
   \<and> returned (getAllTasks example_getTime notion_down 0 5 None) = Inr [newer_task, older_task]
   \<and> (\<exists>rs. returned (getAllTasks example_getTime notion_down 0 5 None) = Inr rs
         \<and> mset rs = mset [older_task, newer_task]
         \<and> updatedAt_descending example_getTime rs)
   \<and> logged (getAllTasks example_getTime notion_down 0 5 None) = [unavailable]"
proof -
  have miss: "\<not> isCacheValid None 0" by (simp add: isCacheValid_def)
  have conn: "fetchNotionTasks_result notion_down = Inl unavailable"
    "fetchTodoistTasks_result notion_down = Inr [older_task, newer_task]"
    by (simp_all add: notion_down_def)
  have times: "example_getTime (updatedAt older_task) = Some 1717228800000"
    "example_getTime (updatedAt newer_task) = Some 1717329600000"
    by (simp_all add: older_task_def newer_task_def todoistItemToTask_def notionPageToTask_def
          example_item_def example_page_def example_getTime_def Let_def)
  have valid: "valid_timestamps example_getTime [older_task, newer_task]"
    using times by (simp add: valid_timestamps_def)
  have cmp: "byUpdatedAtDesc example_getTime older_task newer_task = Some 100800000"
    using times by (simp add: byUpdatedAtDesc_def)
  have srt: "js_sort (byUpdatedAtDesc example_getTime) [older_task, newer_task]
      = [newer_task, older_task]"
    by (simp add: js_sort_def cmp)
  have res: "returned (getAllTasks example_getTime notion_down 0 5 None) = Inr [newer_task, older_task]"
    by (simp add: getAllTasks_def miss conn srt Let_def)
  from getAllTasks_partial_failure [OF miss, of example_getTime notion_down 5 unavailable
         "[older_task, newer_task]"] conn valid miss res
  show ?thesis by simp
qed

text \<open>
  Claim C2. A \<^verbatim>\<open>getAllTasks\<close> call made while a snapshot exists whose age is under
  \<open>CACHE_TTL_MS\<close> (30 seconds) returns the snapshot's tasks, leaves the snapshot as it
  is and calls no connector. A call made when the age has reached the TTL, when there is
  no snapshot, or on the cache left by a successful create, update or delete, calls
  the fetch of both connectors. The cache being arbitrary, this holds after every
  sequence of calls.
\<close>

theorem cache_ttl_behaviour:
  "(cache = Some c \<and> now - timestamp c < CACHE_TTL_MS \<longrightarrow>
      getAllTasks getTime conn now now' cache =
        \<lparr>returned = Inr (tasks c), cache_after = Some c, calls = [], logged = []\<rparr>)
   \<and> (cache = Some c \<and> CACHE_TTL_MS \<le> now - timestamp c \<longrightarrow>
      calls (getAllTasks getTime conn now now' cache) = [FetchNotionTasks, FetchTodoistTasks])
   \<and> (cache = None \<longrightarrow>
      calls (getAllTasks getTime conn now now' cache) = [FetchNotionTasks, FetchTodoistTasks])
   \<and> (returned (createTask conn0 src input cache) = Inr t \<longrightarrow>
      calls (getAllTasks getTime conn now now' (cache_after (createTask conn0 src input cache)))
        = [FetchNotionTasks, FetchTodoistTasks])
   \<and> (returned (updateTask conn0 task updates cache) = Inr t \<longrightarrow>
      calls (getAllTasks getTime conn now now' (cache_after (updateTask conn0 task updates cache)))
        = [FetchNotionTasks, FetchTodoistTasks])
   \<and> (returned (deleteTask conn0 task cache) = Inr u \<longrightarrow>
      calls (getAllTasks getTime conn now now' (cache_after (deleteTask conn0 task cache)))
        = [FetchNotionTasks, FetchTodoistTasks])
   \<and> CACHE_TTL_MS = 30000"
  by (auto simp: getAllTasks_def isCacheValid_def Let_def createTask_def updateTask_def
        deleteTask_def routed_def refreshTasks_def CACHE_TTL_MS_def split: sum.splits if_splits)

theorem cache_ttl_behaviour_witness:
  "getAllTasks example_getTime notion_down 30999 31005 example_cache =
     \<lparr>returned = Inr [newer_task], cache_after = example_cache, calls = [], logged = []\<rparr>
   \<and> calls (getAllTasks example_getTime notion_down 31000 31005 example_cache)
       = [FetchNotionTasks, FetchTodoistTasks]
   \<and> calls (getAllTasks example_getTime notion_down 2000 2005
        (cache_after (createTask notion_down ''todoist'' example_input example_cache)))
       = [FetchNotionTasks, FetchTodoistTasks]
   \<and> calls (getAllTasks example_getTime notion_down 2000 2005
        (cache_after (updateTask notion_down older_task (example_update (Some Done)) example_cache)))
       = [FetchNotionTasks, FetchTodoistTasks]
   \<and> calls (getAllTasks example_getTime notion_down 2000 2005
        (cache_after (deleteTask notion_down older_task example_cache)))
       = [FetchNotionTasks, FetchTodoistTasks]"
proof -
  let ?c = "\<lparr>tasks = [newer_task], timestamp = 1000\<rparr>"
  have c: "example_cache = Some ?c" by (simp add: example_cache_def)
  have fresh: "(30999::int) - timestamp ?c < CACHE_TTL_MS"
    and stale: "CACHE_TTL_MS \<le> (31000::int) - timestamp ?c"
    by (simp_all add: CACHE_TTL_MS_def)
  have src: "source older_task = ''todoist''"
    by (simp add: older_task_def todoistItemToTask_def Let_def)
  have created: "returned (createTask notion_down ''todoist'' example_input example_cache) = Inr older_task"
    by (simp add: createTask_def routed_def notion_down_def)
  have updated: "returned (updateTask notion_down older_task (example_update (Some Done)) example_cache)
      = Inr older_task"
    by (simp add: updateTask_def routed_def notion_down_def src)
  have deleted: "returned (deleteTask notion_down older_task example_cache) = Inr ()"
    by (simp add: deleteTask_def routed_def notion_down_def src)
  from cache_ttl_behaviour [of example_cache ?c 30999 example_getTime notion_down 31005]
       c fresh
  have hit: "getAllTasks example_getTime notion_down 30999 31005 example_cache =
     \<lparr>returned = Inr [newer_task], cache_after = example_cache, calls = [], logged = []\<rparr>"
    by simp
  from cache_ttl_behaviour [of example_cache ?c 31000 example_getTime notion_down 31005]
       c stale
  have miss: "calls (getAllTasks example_getTime notion_down 31000 31005 example_cache)
       = [FetchNotionTasks, FetchTodoistTasks]"
    by simp
  from cache_ttl_behaviour [of example_cache ?c 2000 example_getTime notion_down 2005
         notion_down "''todoist''" example_input older_task older_task "example_update (Some Done)"
         "()"]
       created updated deleted
  have after: "calls (getAllTasks example_getTime notion_down 2000 2005
        (cache_after (createTask notion_down ''todoist'' example_input example_cache)))
       = [FetchNotionTasks, FetchTodoistTasks]"
    "calls (getAllTasks example_getTime notion_down 2000 2005
        (cache_after (updateTask notion_down older_task (example_update (Some Done)) example_cache)))
       = [FetchNotionTasks, FetchTodoistTasks]"
    "calls (getAllTasks example_getTime notion_down 2000 2005
        (cache_after (deleteTask notion_down older_task example_cache)))
       = [FetchNotionTasks, FetchTodoistTasks]"
    by simp_all
  from hit miss after show ?thesis by blast
qed

text \<open>
  Claim C9. A write that fails returns the error and leaves the cache as it was:
  \<^verbatim>\<open>createTask\<close>, \<^verbatim>\<open>updateTask\<close> and \<^verbatim>\<open>deleteTask\<close> return the rejection of the
  connector they route to, and whenever they return an error the cache is unchanged.
  A write whose origin is neither \<open>notion\<close> nor \<open>todoist\<close> fails with the
  unsupported-source error, calls no connector and leaves the cache unchanged.
\<close>

theorem failed_write_keeps_cache:
  "(returned (createTask conn src input cache) = Inl e \<longrightarrow>
      cache_after (createTask conn src input cache) = cache)
   \<and> (returned (updateTask conn task updates cache) = Inl e \<longrightarrow>
      cache_after (updateTask conn task updates cache) = cache)
   \<and> (returned (deleteTask conn task cache) = Inl e \<longrightarrow>
      cache_after (deleteTask conn task cache) = cache)
   \<and> (src = ''notion'' \<and> createNotionTask_result conn input = Inl e \<longrightarrow>
      returned (createTask conn src input cache) = Inl e)
   \<and> (src = ''todoist'' \<and> createTodoistTask_result conn input = Inl e \<longrightarrow>
      returned (createTask conn src input cache) = Inl e)
   \<and> (source task = ''notion'' \<and> updateNotionTask_result conn (sourceId task) updates = Inl e \<longrightarrow>
      returned (updateTask conn task updates cache) = Inl e)
   \<and> (source task = ''todoist'' \<and> updateTodoistTask_result conn (sourceId task) updates = Inl e \<longrightarrow>
      returned (updateTask conn task updates cache) = Inl e)
   \<and> (source task = ''notion'' \<and> deleteNotionTask_result conn (sourceId task) = Inl e \<longrightarrow>
      returned (deleteTask conn task cache) = Inl e)
   \<and> (source task = ''todoist'' \<and> deleteTodoistTask_result conn (sourceId task) = Inl e \<longrightarrow>
      returned (deleteTask conn task cache) = Inl e)
   \<and> (src \<noteq> ''notion'' \<and> src \<noteq> ''todoist'' \<longrightarrow>
      createTask conn src input cache =
        \<lparr>returned = Inl (unsupported src), cache_after = cache, calls = [], logged = []\<rparr>)
   \<and> (source task \<noteq> ''notion'' \<and> source task \<noteq> ''todoist'' \<longrightarrow>
      updateTask conn task updates cache =
        \<lparr>returned = Inl (unsupported (source task)), cache_after = cache, calls = [], logged = []\<rparr>
      \<and> deleteTask conn task cache =
        \<lparr>returned = Inl (unsupported (source task)), cache_after = cache, calls = [], logged = []\<rparr>)"
  by (auto simp: createTask_def updateTask_def deleteTask_def routed_def split: sum.splits)

theorem failed_write_keeps_cache_witness:
  "createTask notion_down ''notion'' example_input example_cache =
     \<lparr>returned = Inl unavailable, cache_after = example_cache,
      calls = [CreateNotionTask example_input], logged = []\<rparr>
   \<and> returned (updateTask notion_down newer_task (example_update (Some Done)) example_cache)
       = Inl unavailable
   \<and> cache_after (updateTask notion_down newer_task (example_update (Some Done)) example_cache)
       = example_cache
   \<and> returned (deleteTask notion_down newer_task example_cache) = Inl unavailable
   \<and> cache_after (deleteTask notion_down newer_task example_cache) = example_cache
   \<and> createTask notion_down ''github'' example_input example_cache =
     \<lparr>returned = Inl (unsupported ''github''), cache_after = example_cache, calls = [],
      logged = []\<rparr>
   \<and> updateTask notion_down (newer_task\<lparr>source := ''github''\<rparr>) (example_update None) example_cache =
     \<lparr>returned = Inl (unsupported ''github''), cache_after = example_cache, calls = [],
      logged = []\<rparr>"
proof -
  have src: "source newer_task = ''notion''"
    by (simp add: newer_task_def notionPageToTask_def Let_def)
  have down: "createNotionTask_result notion_down example_input = Inl unavailable"
    "updateNotionTask_result notion_down (sourceId newer_task) (example_update (Some Done))
       = Inl unavailable"
    "deleteNotionTask_result notion_down (sourceId newer_task) = Inl unavailable"
    by (simp_all add: notion_down_def)
  have other: "''github'' \<noteq> ''notion''" "''github'' \<noteq> ''todoist''"
    "source (newer_task\<lparr>source := ''github''\<rparr>) = ''github''"
    by simp_all
  have called: "calls (createTask notion_down ''notion'' example_input example_cache)
      = [CreateNotionTask example_input]"
    "logged (createTask notion_down ''notion'' example_input example_cache) = []"
    by (simp_all add: createTask_def routed_def down)
  from failed_write_keeps_cache [of notion_down "''notion''" example_input example_cache unavailable
         newer_task "example_update (Some Done)"]
       src down
  have failed: "returned (createTask notion_down ''notion'' example_input example_cache) = Inl unavailable"
    "cache_after (createTask notion_down ''notion'' example_input example_cache) = example_cache"
    "returned (updateTask notion_down newer_task (example_update (Some Done)) example_cache)
       = Inl unavailable"
    "cache_after (updateTask notion_down newer_task (example_update (Some Done)) example_cache)
       = example_cache"
    "returned (deleteTask notion_down newer_task example_cache) = Inl unavailable"
    "cache_after (deleteTask notion_down newer_task example_cache) = example_cache"
    by simp_all
  from failed_write_keeps_cache [of notion_down "''github''" example_input example_cache unavailable
         "newer_task\<lparr>source := ''github''\<rparr>" "example_update None"]
       other
  have unsupp: "createTask notion_down ''github'' example_input example_cache =
     \<lparr>returned = Inl (unsupported ''github''), cache_after = example_cache, calls = [],
      logged = []\<rparr>"
    "updateTask notion_down (newer_task\<lparr>source := ''github''\<rparr>) (example_update None) example_cache =
     \<lparr>returned = Inl (unsupported ''github''), cache_after = example_cache, calls = [],
      logged = []\<rparr>"
    by simp_all
  have whole: "createTask notion_down ''notion'' example_input example_cache =
     \<lparr>returned = Inl unavailable, cache_after = example_cache,
      calls = [CreateNotionTask example_input], logged = []\<rparr>"
    using failed(1,2) called
    by (cases "createTask notion_down ''notion'' example_input example_cache") simp
  from whole failed unsupp show ?thesis by blast
qed

end
